theory Spec2Isabelle
  imports Main
begin

section \<open>secure-auth-api: token manager and authentication controller\<close>

text \<open>
  The development embeds \<^verbatim>\<open>src/utils/tokenManager.js\<close> and
  \<^verbatim>\<open>src/controllers/authController.js\<close>, together with the \<^verbatim>\<open>users\<close> table of
  \<^verbatim>\<open>src/config/database.js\<close> that the controller reads and writes.

  Time is the millisecond clock of \<^verbatim>\<open>Date.now()\<close>, an \<open>int\<close>. One request has one
  clock value \<open>now\<close>: the reads a handler makes while it serves a request
  (\<^verbatim>\<open>new Date()\<close>, \<^verbatim>\<open>Date.now()\<close>, the library's own read inside \<^verbatim>\<open>jwt.sign\<close> and
  \<^verbatim>\<open>jwt.verify\<close>, \<^verbatim>\<open>NOW()\<close> in SQL) all return it. Different requests have
  unrelated clock values; no theorem below assumes that the clock moves forward.
\<close>

subsection \<open>The jsonwebtoken library\<close>

text \<open>
  \<^verbatim>\<open>jwt.sign\<close> and \<^verbatim>\<open>jwt.verify\<close> belong to a library, which is modelled symbolically: a
  token is either the serialisation of a claim set together with an HMAC-SHA256 signature
  under some secret, or a string that does not parse. A signature verifies under a secret
  exactly when that secret produced it, and two tokens are the same string exactly when
  secret and claims agree.

  The claim set is the one this program signs: the payload handed to \<^verbatim>\<open>jwt.sign\<close>
  (\<^verbatim>\<open>userId\<close>, \<^verbatim>\<open>email\<close> for access tokens only, \<^verbatim>\<open>type\<close>) and the registered claims
  \<^verbatim>\<open>iat\<close>, \<^verbatim>\<open>exp\<close> (both in seconds) and \<^verbatim>\<open>iss\<close> that the library adds.
\<close>

type_synonym secret = string

record payload =
  userId :: int
  email_claim :: "string option"
  type_claim :: string

record claims = payload +
  iat :: int
  exp_claim :: int
  iss :: string

datatype jwt = Signed secret claims | Malformed string

text \<open>\<^verbatim>\<open>jwt.sign(payload, secret, { expiresIn, issuer })\<close> at clock value \<open>now\<close>;
  \<open>expiresIn\<close> is given in seconds (\<^verbatim>\<open>'15m'\<close> is 900, \<^verbatim>\<open>'7d'\<close> is 604800).\<close>

definition jwt_sign :: "int \<Rightarrow> payload \<Rightarrow> secret \<Rightarrow> int \<Rightarrow> string \<Rightarrow> jwt" where
  "jwt_sign now p key expiresIn issuer =
     Signed key (payload.extend p
       \<lparr>iat = now div 1000, exp_claim = now div 1000 + expiresIn, iss = issuer\<rparr>)"

text \<open>\<^verbatim>\<open>jwt.verify(token, secret)\<close> at clock value \<open>now\<close>: the thrown error is \<open>Inl\<close> with
  its message. A token is expired once the clock, in whole seconds, has reached \<^verbatim>\<open>exp\<close>.\<close>

fun jwt_verify :: "int \<Rightarrow> jwt \<Rightarrow> secret \<Rightarrow> string + claims" where
  "jwt_verify now (Malformed s) key = Inl ''jwt malformed''"
| "jwt_verify now (Signed k c) key =
     (if k \<noteq> key then Inl ''invalid signature''
      else if now div 1000 \<ge> exp_claim c then Inl ''jwt expired''
      else Inr c)"

subsection \<open>TokenManager\<close>

text \<open>The two module-level secrets, read from the environment or drawn at random when the
  process starts, and the two bcryptjs functions the controller calls. bcryptjs is a
  library: its functions are parameters, and every theorem holds for any choice of them.
  \<^verbatim>\<open>bcrypt.hash\<close> draws a random salt, which is its third argument here.\<close>

record env =
  JWT_SECRET :: secret
  JWT_REFRESH_SECRET :: secret
  bcrypt_hash :: "string \<Rightarrow> nat \<Rightarrow> string \<Rightarrow> string"
  bcrypt_compare :: "string \<Rightarrow> string \<Rightarrow> bool"

definition generateAccessToken :: "env \<Rightarrow> int \<Rightarrow> int \<Rightarrow> string \<Rightarrow> jwt" where
  "generateAccessToken e now uid em =
     jwt_sign now \<lparr>userId = uid, email_claim = Some em, type_claim = ''access''\<rparr>
       (JWT_SECRET e) (15 * 60) ''secure-auth-api''"

definition generateRefreshToken :: "env \<Rightarrow> int \<Rightarrow> int \<Rightarrow> jwt" where
  "generateRefreshToken e now uid =
     jwt_sign now \<lparr>userId = uid, email_claim = None, type_claim = ''refresh''\<rparr>
       (JWT_REFRESH_SECRET e) (7 * 24 * 60 * 60) ''secure-auth-api''"

text \<open>Both verifiers catch every error, the library's and their own
  \<^verbatim>\<open>Invalid token type\<close>, and throw one fixed message instead.\<close>

definition verifyAccessToken :: "env \<Rightarrow> int \<Rightarrow> jwt \<Rightarrow> string + claims" where
  "verifyAccessToken e now token =
     (case jwt_verify now token (JWT_SECRET e) of
        Inl err \<Rightarrow> Inl ''Invalid or expired access token''
      | Inr decoded \<Rightarrow>
          if type_claim decoded \<noteq> ''access'' then Inl ''Invalid or expired access token''
          else Inr decoded)"

definition verifyRefreshToken :: "env \<Rightarrow> int \<Rightarrow> jwt \<Rightarrow> string + claims" where
  "verifyRefreshToken e now token =
     (case jwt_verify now token (JWT_REFRESH_SECRET e) of
        Inl err \<Rightarrow> Inl ''Invalid or expired refresh token''
      | Inr decoded \<Rightarrow>
          if type_claim decoded \<noteq> ''refresh'' then Inl ''Invalid or expired refresh token''
          else Inr decoded)"

record tokenPair =
  accessToken :: jwt
  refreshToken_pair :: jwt
  expiresIn :: nat

definition generateTokenPair :: "env \<Rightarrow> int \<Rightarrow> int \<Rightarrow> string \<Rightarrow> tokenPair" where
  "generateTokenPair e now uid em =
     \<lparr>accessToken = generateAccessToken e now uid em,
      refreshToken_pair = generateRefreshToken e now uid,
      expiresIn = 900\<rparr>"

subsection \<open>The users table\<close>

text \<open>
  One row of the table that \<^verbatim>\<open>initDB\<close> creates. Timestamps are clock values, a SQL
  \<^verbatim>\<open>NULL\<close> is \<open>None\<close>. The column \<^verbatim>\<open>id\<close> is \<open>id_col\<close> here, \<open>id\<close> being the identity
  function of HOL. The counter is written by this program as an integer only and
  defaults to 0.
\<close>

record users_row =
  id_col :: int
  email :: string
  password_hash :: string
  refresh_token :: "jwt option"
  refresh_token_expires :: "int option"
  failed_login_attempts :: int
  account_locked_until :: "int option"
  last_login :: "int option"
  created_at :: int
  updated_at :: int

type_synonym users = "users_row list"

text \<open>\<^verbatim>\<open>SELECT ... FROM users WHERE email = $1\<close> and \<^verbatim>\<open>... WHERE id = $1\<close>: the matching
  rows, in table order.\<close>

definition select_by_email :: "users \<Rightarrow> string \<Rightarrow> users" where
  "select_by_email db em = filter (\<lambda>u. email u = em) db"

definition select_by_id :: "users \<Rightarrow> int \<Rightarrow> users" where
  "select_by_id db i = filter (\<lambda>u. id_col u = i) db"

text \<open>\<^verbatim>\<open>UPDATE users SET ... WHERE id = $n\<close>: one statement, which sets all its columns
  at once in every row with that id.\<close>

definition update_users :: "users \<Rightarrow> int \<Rightarrow> (users_row \<Rightarrow> users_row) \<Rightarrow> users" where
  "update_users db i f = map (\<lambda>u. if id_col u = i then f u else u) db"


text \<open>The largest value of the \<^verbatim>\<open>INTEGER\<close> column \<^verbatim>\<open>failed_login_attempts\<close>: the
  database rejects an update that writes more.\<close>

definition INTEGER_MAX :: int where
  "INTEGER_MAX = 2147483647"

subsection \<open>What one request sees of the outside\<close>

text \<open>
  \<open>now\<close> is the clock. \<open>query_fails = Some k\<close> says that the \<open>k\<close>-th call of
  \<^verbatim>\<open>pool.query\<close> in this request (counted from 0) is rejected, which throws into the
  handler's \<^verbatim>\<open>catch\<close>; later calls are then never made, so one index is enough.
  \<open>salt\<close> is the salt \<^verbatim>\<open>bcrypt.hash\<close> draws and \<open>serial\<close> the next value of the id
  sequence; only \<^verbatim>\<open>register\<close> uses them.
\<close>

record world =
  now :: int
  query_fails :: "nat option"
  salt :: string
  serial :: int

subsection \<open>Responses\<close>

datatype data =
    RegisterData int string int tokenPair
  | LoginData int string tokenPair
  | RefreshData tokenPair

record response =
  status :: nat
  success :: bool
  message :: "string option"
  data :: "data option"

text \<open>\<^verbatim>\<open>res.status(s).json({ success, message })\<close>\<close>

definition json :: "nat \<Rightarrow> bool \<Rightarrow> string \<Rightarrow> response" where
  "json s ok msg = \<lparr>status = s, success = ok, message = Some msg, data = None\<rparr>"

text \<open>The error kinds of the specification, as the responses the controller sends.
  \<^verbatim>\<open>refreshToken\<close> has three messages for a rejected token, all with status 401.\<close>

definition InvalidCredentials :: response where
  "InvalidCredentials = json 401 False ''Invalid credentials''"

definition AccountLocked :: response where
  "AccountLocked =
     json 403 False ''Account temporarily locked due to multiple failed login attempts''"

definition InvalidToken :: "response \<Rightarrow> bool" where
  "InvalidToken r = (status r = 401 \<and> \<not> success r \<and> data r = None)"

subsection \<open>AuthController\<close>

text \<open>\<^verbatim>\<open>user.account_locked_until && new Date() < new Date(user.account_locked_until)\<close>\<close>

definition is_locked :: "int \<Rightarrow> int option \<Rightarrow> bool" where
  "is_locked t until = (case until of None \<Rightarrow> False | Some l \<Rightarrow> t < l)"

text \<open>\<^verbatim>\<open>new Date(x)\<close> for a column value: \<^verbatim>\<open>new Date(null)\<close> is the epoch.\<close>

definition new_Date :: "int option \<Rightarrow> int" where
  "new_Date x = (case x of None \<Rightarrow> 0 | Some t \<Rightarrow> t)"


definition login :: "env \<Rightarrow> world \<Rightarrow> users \<Rightarrow> string \<Rightarrow> string \<Rightarrow> response \<times> users" where
  "login e w db em password =
     (if query_fails w = Some 0 then (json 500 False ''Login failed'', db)
      else
        case select_by_email db em of
          [] \<Rightarrow> (json 401 False ''Invalid credentials'', db)
        | user # _ \<Rightarrow>
            if is_locked (now w) (account_locked_until user)
            then (json 403 False
                    ''Account temporarily locked due to multiple failed login attempts'', db)
            else
              let isValidPassword = bcrypt_compare e password (password_hash user) in
              if \<not> isValidPassword then
                let newFailedAttempts = failed_login_attempts user + 1;
                    lockUntil = (if newFailedAttempts \<ge> 5
                                 then Some (now w + 15 * 60 * 1000) else None)
                in
                  if query_fails w = Some 1 \<or> newFailedAttempts > INTEGER_MAX
                  then (json 500 False ''Login failed'', db)
                  else
                    (json 401 False ''Invalid credentials'',
                     update_users db (id_col user)
                       (\<lambda>u. u\<lparr>failed_login_attempts := newFailedAttempts,
                              account_locked_until := lockUntil\<rparr>))
              else if query_fails w = Some 1 then (json 500 False ''Login failed'', db)
              else
                let db1 = update_users db (id_col user)
                            (\<lambda>u. u\<lparr>failed_login_attempts := 0,
                                   account_locked_until := None,
                                   last_login := Some (now w)\<rparr>);
                    tokens = generateTokenPair e (now w) (id_col user) (email user);
                    refreshTokenExpiry = now w + 7 * 24 * 60 * 60 * 1000
                in
                  if query_fails w = Some 2 then (json 500 False ''Login failed'', db1)
                  else
                    (\<lparr>status = 200, success = True, message = Some ''Login successful'',
                      data = Some (LoginData (id_col user) (email user) tokens)\<rparr>,
                     update_users db1 (id_col user)
                       (\<lambda>u. u\<lparr>refresh_token := Some (refreshToken_pair tokens),
                              refresh_token_expires := Some refreshTokenExpiry\<rparr>)))"

text \<open>In \<^verbatim>\<open>refreshToken\<close> the \<^verbatim>\<open>catch\<close> answers 401 for every error, a rejected
  query included.\<close>

definition refreshToken :: "env \<Rightarrow> world \<Rightarrow> users \<Rightarrow> jwt \<Rightarrow> response \<times> users" where
  "refreshToken e w db token =
     (case verifyRefreshToken e (now w) token of
        Inl err \<Rightarrow> (json 401 False ''Token refresh failed'', db)
      | Inr decoded \<Rightarrow>
          if query_fails w = Some 0 then (json 401 False ''Token refresh failed'', db)
          else
            (case select_by_id db (userId decoded) of
              [] \<Rightarrow> (json 401 False ''Invalid refresh token'', db)
            | user # _ \<Rightarrow>
                if refresh_token user \<noteq> Some token
                   \<or> now w > new_Date (refresh_token_expires user)
                then (json 401 False ''Invalid or expired refresh token'', db)
                else
                  let newTokens = generateTokenPair e (now w) (id_col user) (email user);
                      newRefreshTokenExpiry = now w + 7 * 24 * 60 * 60 * 1000
                  in
                    if query_fails w = Some 1
                    then (json 401 False ''Token refresh failed'', db)
                    else
                      (\<lparr>status = 200, success = True, message = None,
                        data = Some (RefreshData newTokens)\<rparr>,
                       update_users db (id_col user)
                         (\<lambda>u. u\<lparr>refresh_token := Some (refreshToken_pair newTokens),
                                refresh_token_expires := Some newRefreshTokenExpiry\<rparr>))))"

text \<open>\<^verbatim>\<open>logout\<close> runs behind the \<^verbatim>\<open>authenticate\<close> middleware, which has put the decoded
  access token into \<^verbatim>\<open>req.user\<close>.\<close>

definition logout :: "world \<Rightarrow> users \<Rightarrow> claims \<Rightarrow> response \<times> users" where
  "logout w db req_user =
     (let uid = userId req_user in
      if query_fails w = Some 0 then (json 500 False ''Logout failed'', db)
      else
        (json 200 True ''Logout successful'',
         update_users db uid
           (\<lambda>u. u\<lparr>refresh_token := None, refresh_token_expires := None\<rparr>)))"

section \<open>Concrete instances\<close>

text \<open>An environment, an account whose password is \<^verbatim>\<open>Secur3!Pass\<close>, the same account
  locked, with two failures on record and with an open session, and requests at a given
  clock value, without and with a rejected query.\<close>

definition E0 :: env where
  "E0 = \<lparr>JWT_SECRET = ''access-secret'', JWT_REFRESH_SECRET = ''refresh-secret'',
         bcrypt_hash = (\<lambda>p r s. s @ p), bcrypt_compare = (\<lambda>p h. h = ''salt'' @ p)\<rparr>"

definition U0 :: users_row where
  "U0 = \<lparr>id_col = 1, email = ''a@x.com'', password_hash = ''saltSecur3!Pass'',
         refresh_token = None, refresh_token_expires = None,
         failed_login_attempts = 0, account_locked_until = None,
         last_login = None, created_at = 0, updated_at = 0\<rparr>"

definition U_locked :: users_row where
  "U_locked = U0\<lparr>failed_login_attempts := 5, account_locked_until := Some 900500\<rparr>"

definition T1 :: jwt where
  "T1 = generateRefreshToken E0 5000 1"

definition U_session :: users_row where
  "U_session = U0\<lparr>refresh_token := Some T1, refresh_token_expires := Some 604805000\<rparr>"

definition W :: "int \<Rightarrow> world" where
  "W t = \<lparr>now = t, query_fails = None, salt = ''salt'', serial = 2\<rparr>"


definition R0 :: claims where
  "R0 = \<lparr>userId = 1, email_claim = Some ''a@x.com'', type_claim = ''access'',
         iat = 5, exp_claim = 905, iss = ''secure-auth-api''\<rparr>"

definition U_two :: users_row where
  "U_two = U0\<lparr>failed_login_attempts := 2\<rparr>"

text \<open>The table after one, two and three logins with a wrong password on the account
  with two failures on record, at clock values 100, 200 and 300.\<close>

definition DB_two_1 :: users where
  "DB_two_1 = snd (login E0 (W 100) [U_two] ''a@x.com'' ''wrong'')"

definition DB_two_2 :: users where
  "DB_two_2 = snd (login E0 (W 200) DB_two_1 ''a@x.com'' ''wrong'')"

definition DB_two_3 :: users where
  "DB_two_3 = snd (login E0 (W 300) DB_two_2 ''a@x.com'' ''wrong'')"

text \<open>The table after a login with the right password at clock value 5000, and after
  a refresh with the token of that login at clock value 5500, in the same second.\<close>

definition DB_login :: users where
  "DB_login = snd (login E0 (W 5000) [U0] ''a@x.com'' ''Secur3!Pass'')"

definition DB_refreshed :: users where
  "DB_refreshed = snd (refreshToken E0 (W 5500) DB_login T1)"

section \<open>Queries after an update\<close>

lemma select_by_email_update_users:
  assumes "\<And>x. email (f x) = email x"
  shows "select_by_email (update_users db i f) em =
         map (\<lambda>u. if id_col u = i then f u else u) (select_by_email db em)"
  unfolding select_by_email_def update_users_def
  by (induction db) (simp_all add: assms)

lemma select_by_id_update_users:
  assumes "\<And>x. id_col (f x) = id_col x"
  shows "select_by_id (update_users db i f) j =
         map (\<lambda>u. if id_col u = i then f u else u) (select_by_id db j)"
  unfolding select_by_id_def update_users_def
  by (induction db) (simp_all add: assms)

lemma select_by_id_ConsD:
  "select_by_id db i = user # rest \<Longrightarrow> id_col user = i"
  unfolding select_by_id_def by (auto dest: filter_eq_ConsD)

lemma update_users_idem:
  assumes "\<And>x. f (f x) = f x" and "\<And>x. id_col (f x) = id_col x"
  shows "update_users (update_users db i f) i f = update_users db i f"
  unfolding update_users_def by (induction db) (simp_all add: assms)

lemma update_users_keeps_counters:
  assumes "\<And>x. failed_login_attempts (f x) = failed_login_attempts x"
  shows "map failed_login_attempts (update_users db i f) = map failed_login_attempts db"
  unfolding update_users_def by (induction db) (simp_all add: assms)

section \<open>The paths through login\<close>

lemma login_unknown_email:
  assumes "select_by_email db em = []" and "query_fails w \<noteq> Some 0"
  shows "login e w db em pw = (InvalidCredentials, db)"
  using assms by (simp add: login_def InvalidCredentials_def)

lemma login_while_locked:
  assumes "select_by_email db em = user # rest" and "query_fails w \<noteq> Some 0"
    and "is_locked (now w) (account_locked_until user)"
  shows "login e w db em pw = (AccountLocked, db)"
  using assms by (simp add: login_def AccountLocked_def)

lemma login_wrong_password:
  assumes "select_by_email db em = user # rest" and "query_fails w = None"
    and "\<not> is_locked (now w) (account_locked_until user)"
    and "\<not> bcrypt_compare e pw (password_hash user)"
    and "failed_login_attempts user < INTEGER_MAX"
  shows "login e w db em pw =
          (InvalidCredentials,
           update_users db (id_col user)
             (\<lambda>u. u\<lparr>failed_login_attempts := failed_login_attempts user + 1,
                    account_locked_until :=
                      (if failed_login_attempts user + 1 \<ge> 5
                       then Some (now w + 15 * 60 * 1000) else None)\<rparr>))"
  using assms by (simp add: login_def InvalidCredentials_def Let_def)

lemma login_wrong_password_row:
  assumes "select_by_email db em = user # rest" and "query_fails w = None"
    and "\<not> is_locked (now w) (account_locked_until user)"
    and "\<not> bcrypt_compare e pw (password_hash user)"
    and "failed_login_attempts user < INTEGER_MAX"
  shows "fst (login e w db em pw) = InvalidCredentials
       \<and> (\<exists>rest'. select_by_email (snd (login e w db em pw)) em =
            user\<lparr>failed_login_attempts := failed_login_attempts user + 1,
                 account_locked_until :=
                   (if failed_login_attempts user + 1 \<ge> 5
                    then Some (now w + 15 * 60 * 1000) else None)\<rparr> # rest')"
  using assms
  by (simp add: login_wrong_password select_by_email_update_users)

lemma login_success_state:
  assumes "login e w db em pw = (r, db')" and "success r"
  shows "\<exists>user rest. select_by_email db em = user # rest
           \<and> \<not> is_locked (now w) (account_locked_until user)
           \<and> bcrypt_compare e pw (password_hash user)
           \<and> db' = update_users
                (update_users db (id_col user)
                   (\<lambda>u. u\<lparr>failed_login_attempts := 0, account_locked_until := None,
                          last_login := Some (now w)\<rparr>))
                (id_col user)
                (\<lambda>u. u\<lparr>refresh_token :=
                            Some (refreshToken_pair
                                    (generateTokenPair e (now w) (id_col user) (email user))),
                        refresh_token_expires := Some (now w + 7 * 24 * 60 * 60 * 1000)\<rparr>)"
  using assms
  by (auto simp: login_def json_def Let_def split: list.splits if_splits)

section \<open>The paths through refreshToken and logout\<close>

lemma verifyRefreshToken_claims:
  assumes "verifyRefreshToken e t tok = Inr d" and "verifyRefreshToken e t' tok = Inr d'"
  shows "d' = d"
  using assms
  by (cases tok) (auto simp: verifyRefreshToken_def split: if_splits)

lemma refreshToken_failure:
  assumes "\<not> success (fst (refreshToken e w db tok))"
  shows "InvalidToken (fst (refreshToken e w db tok)) \<and> snd (refreshToken e w db tok) = db"
  using assms
  by (auto simp: refreshToken_def InvalidToken_def json_def Let_def
      split: sum.splits list.splits if_splits)

lemma refreshToken_success_state:
  assumes "refreshToken e w db tok = (r, db')" and "success r"
  shows "\<exists>decoded user rest.
           verifyRefreshToken e (now w) tok = Inr decoded
         \<and> select_by_id db (userId decoded) = user # rest
         \<and> refresh_token user = Some tok
         \<and> \<not> now w > new_Date (refresh_token_expires user)
         \<and> data r = Some (RefreshData (generateTokenPair e (now w) (id_col user) (email user)))
         \<and> db' = update_users db (id_col user)
                  (\<lambda>u. u\<lparr>refresh_token :=
                              Some (refreshToken_pair
                                      (generateTokenPair e (now w) (id_col user) (email user))),
                          refresh_token_expires := Some (now w + 7 * 24 * 60 * 60 * 1000)\<rparr>)"
  using assms
  by (auto simp: refreshToken_def json_def Let_def split: sum.splits list.splits if_splits)

lemma refreshToken_not_stored:
  assumes "\<And>d user rest. verifyRefreshToken e (now w) tok = Inr d \<Longrightarrow>
             select_by_id db (userId d) = user # rest \<Longrightarrow> refresh_token user \<noteq> Some tok"
  shows "InvalidToken (fst (refreshToken e w db tok)) \<and> snd (refreshToken e w db tok) = db"
proof (rule refreshToken_failure)
  show "\<not> success (fst (refreshToken e w db tok))"
  proof
    assume s: "success (fst (refreshToken e w db tok))"
    from refreshToken_success_state [OF surjective_pairing s] assms
    show False by blast
  qed
qed

lemma refreshToken_keeps_counters:
  "map failed_login_attempts (snd (refreshToken e w db tok)) = map failed_login_attempts db"
  by (simp add: refreshToken_def Let_def update_users_keeps_counters
      split: sum.splits list.splits)

lemma logout_keeps_counters:
  "map failed_login_attempts (snd (logout w db req_user)) = map failed_login_attempts db"
  by (simp add: logout_def Let_def update_users_keeps_counters)

lemma logout_ok:
  assumes "query_fails w \<noteq> Some 0"
  shows "logout w db req_user =
          (json 200 True ''Logout successful'',
           update_users db (userId req_user)
             (\<lambda>u. u\<lparr>refresh_token := None, refresh_token_expires := None\<rparr>))"
  using assms by (simp add: logout_def Let_def)

section \<open>Two runs, step by step\<close>

lemma DB_two_1_eq: "DB_two_1 = [U_two\<lparr>failed_login_attempts := 3\<rparr>]"
  by (simp add: DB_two_1_def login_def select_by_email_def U_two_def U0_def W_def E0_def
      is_locked_def INTEGER_MAX_def Let_def update_users_def)

lemma DB_two_2_eq: "DB_two_2 = [U_two\<lparr>failed_login_attempts := 4\<rparr>]"
  by (simp add: DB_two_2_def DB_two_1_eq login_def select_by_email_def U_two_def U0_def W_def
      E0_def is_locked_def INTEGER_MAX_def Let_def update_users_def)

lemma DB_two_3_eq:
  "DB_two_3 = [U_two\<lparr>failed_login_attempts := 5, account_locked_until := Some 900300\<rparr>]"
  by (simp add: DB_two_3_def DB_two_2_eq login_def select_by_email_def U_two_def U0_def W_def
      E0_def is_locked_def INTEGER_MAX_def Let_def update_users_def)

lemma T1_eq:
  "T1 = Signed ''refresh-secret''
          \<lparr>userId = 1, email_claim = None, type_claim = ''refresh'',
           iat = 5, exp_claim = 604805, iss = ''secure-auth-api''\<rparr>"
  by (simp add: T1_def generateRefreshToken_def jwt_sign_def payload.extend_def E0_def)

lemma DB_login_eq:
  "DB_login = [U0\<lparr>last_login := Some 5000, refresh_token := Some T1,
                  refresh_token_expires := Some 604805000\<rparr>]"
  by (simp add: DB_login_def login_def select_by_email_def U0_def W_def E0_def is_locked_def
      Let_def update_users_def generateTokenPair_def T1_eq generateRefreshToken_def
      jwt_sign_def payload.extend_def)

lemma DB_refreshed_eq:
  "DB_refreshed = [U0\<lparr>last_login := Some 5000, refresh_token := Some T1,
                      refresh_token_expires := Some 604805500\<rparr>]"
  by (simp add: DB_refreshed_def DB_login_eq refreshToken_def verifyRefreshToken_def T1_eq
      E0_def W_def select_by_id_def U0_def new_Date_def Let_def update_users_def
      generateTokenPair_def generateRefreshToken_def jwt_sign_def payload.extend_def)

text \<open>Two refresh tokens minted for one user id under one secret are the same string
  exactly when they are minted in the same second: the payload holds nothing else that
  changes.\<close>

lemma generateRefreshToken_eq_iff:
  "generateRefreshToken e t' uid = generateRefreshToken e t uid \<longleftrightarrow> t' div 1000 = t div 1000"
  by (auto simp: generateRefreshToken_def jwt_sign_def payload.extend_def)

section \<open>Properties of the token manager\<close>

text \<open>
  Claim C9 (round trip). A pair issued at clock value \<open>t\<close> for user id \<open>u\<close> and email
  \<open>em\<close> carries \<open>expiresIn = 900\<close>; its access token, verified at any clock value \<open>ta\<close>
  inside the token's 15 minutes, decodes to the claims with \<open>userId = u\<close> and that email;
  its refresh token, verified at any \<open>tr\<close> inside its 7 days, decodes to the claims
  with \<open>userId = u\<close>. Verifying at once (\<open>ta = tr = t\<close>) is always inside both windows.
\<close>

theorem generateTokenPair_roundtrip:
  assumes "ta div 1000 < t div 1000 + 900" and "tr div 1000 < t div 1000 + 604800"
  shows "verifyAccessToken e ta (accessToken (generateTokenPair e t u em)) =
           Inr \<lparr>userId = u, email_claim = Some em, type_claim = ''access'',
                iat = t div 1000, exp_claim = t div 1000 + 900, iss = ''secure-auth-api''\<rparr>
       \<and> verifyRefreshToken e tr (refreshToken_pair (generateTokenPair e t u em)) =
           Inr \<lparr>userId = u, email_claim = None, type_claim = ''refresh'',
                iat = t div 1000, exp_claim = t div 1000 + 604800, iss = ''secure-auth-api''\<rparr>
       \<and> expiresIn (generateTokenPair e t u em) = 900"
  using assms
  by (simp add: generateTokenPair_def generateAccessToken_def generateRefreshToken_def
      verifyAccessToken_def verifyRefreshToken_def jwt_sign_def payload.extend_def)

theorem generateTokenPair_roundtrip_witness:
  "(5000::int) div 1000 < 5000 div 1000 + 900 \<and> (5000::int) div 1000 < 5000 div 1000 + 604800
   \<and> verifyAccessToken E0 5000 (accessToken (generateTokenPair E0 5000 7 ''a@x.com'')) =
           Inr \<lparr>userId = 7, email_claim = Some ''a@x.com'', type_claim = ''access'',
                iat = 5, exp_claim = 905, iss = ''secure-auth-api''\<rparr>
   \<and> verifyRefreshToken E0 5000 (refreshToken_pair (generateTokenPair E0 5000 7 ''a@x.com'')) =
           Inr \<lparr>userId = 7, email_claim = None, type_claim = ''refresh'',
                iat = 5, exp_claim = 604805, iss = ''secure-auth-api''\<rparr>
   \<and> expiresIn (generateTokenPair E0 5000 7 ''a@x.com'') = 900"
  using generateTokenPair_roundtrip [of 5000 5000 5000 E0 7 "''a@x.com''"] by simp

text \<open>
  Claim C5 (token classes do not mix). For every user id, email, pair of secrets and pair
  of clock values, the access verifier rejects a freshly minted refresh token and the
  refresh verifier rejects a freshly minted access token, each with its one fixed error,
  although each token is signed with its own class's secret and its own verifier accepts
  it at the time of issue. The rejection does not depend on the two secrets being
  different (the \<^verbatim>\<open>type\<close> claim decides then); when they are different, the signature
  check of the library already fails under the other class's secret.
\<close>

theorem token_classes_do_not_mix:
  "verifyAccessToken e t' (generateRefreshToken e t u) = Inl ''Invalid or expired access token''
   \<and> verifyRefreshToken e t' (generateAccessToken e t u em) =
       Inl ''Invalid or expired refresh token''
   \<and> (\<exists>c. generateRefreshToken e t u = Signed (JWT_REFRESH_SECRET e) c
          \<and> verifyRefreshToken e t (generateRefreshToken e t u) = Inr c)
   \<and> (\<exists>c. generateAccessToken e t u em = Signed (JWT_SECRET e) c
          \<and> verifyAccessToken e t (generateAccessToken e t u em) = Inr c)
   \<and> (JWT_SECRET e \<noteq> JWT_REFRESH_SECRET e \<longrightarrow>
        jwt_verify t' (generateRefreshToken e t u) (JWT_SECRET e) = Inl ''invalid signature''
      \<and> jwt_verify t' (generateAccessToken e t u em) (JWT_REFRESH_SECRET e) =
          Inl ''invalid signature'')"
  by (simp add: generateAccessToken_def generateRefreshToken_def
      verifyAccessToken_def verifyRefreshToken_def jwt_sign_def payload.extend_def)

theorem token_classes_do_not_mix_witness:
  "JWT_SECRET E0 \<noteq> JWT_REFRESH_SECRET E0
   \<and> verifyAccessToken E0 6000 (generateRefreshToken E0 5000 7) =
       Inl ''Invalid or expired access token''
   \<and> verifyRefreshToken E0 6000 (generateAccessToken E0 5000 7 ''a@x.com'') =
       Inl ''Invalid or expired refresh token''
   \<and> jwt_verify 6000 (generateRefreshToken E0 5000 7) (JWT_SECRET E0) = Inl ''invalid signature''
   \<and> jwt_verify 6000 (generateAccessToken E0 5000 7 ''a@x.com'') (JWT_REFRESH_SECRET E0) =
       Inl ''invalid signature''"
  using token_classes_do_not_mix [of E0 6000 5000 7 "''a@x.com''"]
  by (simp add: E0_def)


section \<open>Properties of the controller\<close>

text \<open>
  Claim C1 (lockout after five failures), as amended. Take an account that the store
  returns for the email, with no failure on record (\<open>failed_login_attempts = 0\<close>) and
  not inside a lock window at the first call. Five login calls in a row, each with a
  password that \<^verbatim>\<open>bcrypt.compare\<close> rejects and with no rejected query, all answer
  \<open>InvalidCredentials\<close>; after the fourth the counter is 4 and no lock is set, after the
  fifth the counter is 5 and \<open>account_locked_until\<close> is the fifth call's clock value plus
  15 minutes; every sixth call made before that instant answers \<open>AccountLocked\<close>, for
  every password, the correct one included, and changes nothing.
\<close>

theorem five_failed_logins_lock:
  fixes e :: env and db :: users and em :: string and user :: users_row
  assumes found: "select_by_email db em = user # rest"
    and fresh: "failed_login_attempts user = 0"
               "\<not> is_locked (now w1) (account_locked_until user)"
    and nofail: "query_fails w1 = None" "query_fails w2 = None" "query_fails w3 = None"
                "query_fails w4 = None" "query_fails w5 = None"
    and wrong: "\<not> bcrypt_compare e p1 (password_hash user)"
               "\<not> bcrypt_compare e p2 (password_hash user)"
               "\<not> bcrypt_compare e p3 (password_hash user)"
               "\<not> bcrypt_compare e p4 (password_hash user)"
               "\<not> bcrypt_compare e p5 (password_hash user)"
  shows "let (r1, db1) = login e w1 db em p1;
             (r2, db2) = login e w2 db1 em p2;
             (r3, db3) = login e w3 db2 em p3;
             (r4, db4) = login e w4 db3 em p4;
             (r5, db5) = login e w5 db4 em p5
         in r1 = InvalidCredentials \<and> r2 = InvalidCredentials \<and> r3 = InvalidCredentials
          \<and> r4 = InvalidCredentials \<and> r5 = InvalidCredentials
          \<and> (\<exists>rest4. select_by_email db4 em =
                user\<lparr>failed_login_attempts := 4, account_locked_until := None\<rparr> # rest4)
          \<and> (\<exists>rest5. select_by_email db5 em =
                user\<lparr>failed_login_attempts := 5,
                     account_locked_until := Some (now w5 + 15 * 60 * 1000)\<rparr> # rest5)
          \<and> (\<forall>w6 p6. query_fails w6 = None \<and> now w6 < now w5 + 15 * 60 * 1000 \<longrightarrow>
                login e w6 db5 em p6 = (AccountLocked, db5))"
proof -
  let ?u = "\<lambda>n l. user\<lparr>failed_login_attempts := n, account_locked_until := l\<rparr>"
  define db1 where "db1 = snd (login e w1 db em p1)"
  define db2 where "db2 = snd (login e w2 db1 em p2)"
  define db3 where "db3 = snd (login e w3 db2 em p3)"
  define db4 where "db4 = snd (login e w4 db3 em p4)"
  define db5 where "db5 = snd (login e w5 db4 em p5)"
  from login_wrong_password_row [OF found nofail(1) fresh(2) wrong(1)] fresh(1)
  obtain r1 where s1: "fst (login e w1 db em p1) = InvalidCredentials"
    and q1: "select_by_email db1 em = ?u 1 None # r1"
    by (auto simp: db1_def INTEGER_MAX_def)
  from login_wrong_password_row [OF q1 nofail(2), of e p2] wrong(2)
  obtain r2 where s2: "fst (login e w2 db1 em p2) = InvalidCredentials"
    and q2: "select_by_email db2 em = ?u 2 None # r2"
    by (auto simp: db2_def INTEGER_MAX_def is_locked_def)
  from login_wrong_password_row [OF q2 nofail(3), of e p3] wrong(3)
  obtain r3 where s3: "fst (login e w3 db2 em p3) = InvalidCredentials"
    and q3: "select_by_email db3 em = ?u 3 None # r3"
    by (auto simp: db3_def INTEGER_MAX_def is_locked_def)
  from login_wrong_password_row [OF q3 nofail(4), of e p4] wrong(4)
  obtain r4 where s4: "fst (login e w4 db3 em p4) = InvalidCredentials"
    and q4: "select_by_email db4 em = ?u 4 None # r4"
    by (auto simp: db4_def INTEGER_MAX_def is_locked_def)
  from login_wrong_password_row [OF q4 nofail(5), of e p5] wrong(5)
  obtain r5 where s5: "fst (login e w5 db4 em p5) = InvalidCredentials"
    and q5: "select_by_email db5 em = ?u 5 (Some (now w5 + 15 * 60 * 1000)) # r5"
    by (auto simp: db5_def INTEGER_MAX_def is_locked_def)
  have s6: "login e w6 db5 em p6 = (AccountLocked, db5)"
    if "query_fails w6 = None" and "now w6 < now w5 + 15 * 60 * 1000" for w6 p6
    using login_while_locked [OF q5, of w6 e p6] that by (simp add: is_locked_def)
  have "fst (login e w1 db em p1) = InvalidCredentials
      \<and> fst (login e w2 db1 em p2) = InvalidCredentials
      \<and> fst (login e w3 db2 em p3) = InvalidCredentials
      \<and> fst (login e w4 db3 em p4) = InvalidCredentials
      \<and> fst (login e w5 db4 em p5) = InvalidCredentials
      \<and> (\<exists>rest4. select_by_email db4 em = ?u 4 None # rest4)
      \<and> (\<exists>rest5. select_by_email db5 em = ?u 5 (Some (now w5 + 15 * 60 * 1000)) # rest5)
      \<and> (\<forall>w6 p6. query_fails w6 = None \<and> now w6 < now w5 + 15 * 60 * 1000 \<longrightarrow>
            login e w6 db5 em p6 = (AccountLocked, db5))"
    using s1 s2 s3 s4 s5 q4 q5 s6 by blast
  then show ?thesis
    unfolding db5_def db4_def db3_def db2_def db1_def
    by (simp add: Let_def split_beta)
qed

theorem five_failed_logins_lock_witness:
  "select_by_email [U0] ''a@x.com'' = [U0]
   \<and> \<not> bcrypt_compare E0 ''wrong'' (password_hash U0)
   \<and> bcrypt_compare E0 ''Secur3!Pass'' (password_hash U0)
   \<and> (let (r1, db1) = login E0 (W 100) [U0] ''a@x.com'' ''wrong'';
          (r2, db2) = login E0 (W 200) db1 ''a@x.com'' ''wrong'';
          (r3, db3) = login E0 (W 300) db2 ''a@x.com'' ''wrong'';
          (r4, db4) = login E0 (W 400) db3 ''a@x.com'' ''wrong'';
          (r5, db5) = login E0 (W 500) db4 ''a@x.com'' ''wrong''
       in r5 = InvalidCredentials
          \<and> login E0 (W 600) db5 ''a@x.com'' ''Secur3!Pass'' = (AccountLocked, db5))"
  using five_failed_logins_lock [of "[U0]" "''a@x.com''" U0 "[]" "W 100" "W 200" "W 300"
      "W 400" "W 500" E0 "''wrong''" "''wrong''" "''wrong''" "''wrong''" "''wrong''"]
  by (simp add: select_by_email_def U0_def W_def E0_def is_locked_def Let_def split_beta)

text \<open>
  Claim C1 as stated, for every account, fails for an account with failures already on
  record, since login counts on from the stored counter. With two failures on record and
  no lock, three further wrong passwords answer \<open>InvalidCredentials\<close>, the third of them
  sets the lock, and the fourth call answers \<open>AccountLocked\<close>, not
  \<open>InvalidCredentials\<close>.
\<close>

theorem earlier_failures_lock_sooner:
  "select_by_email [U_two] ''a@x.com'' = [U_two]
   \<and> failed_login_attempts U_two = 2 \<and> account_locked_until U_two = None
   \<and> \<not> bcrypt_compare E0 ''wrong'' (password_hash U_two)
   \<and> fst (login E0 (W 100) [U_two] ''a@x.com'' ''wrong'') = InvalidCredentials
   \<and> fst (login E0 (W 200) DB_two_1 ''a@x.com'' ''wrong'') = InvalidCredentials
   \<and> fst (login E0 (W 300) DB_two_2 ''a@x.com'' ''wrong'') = InvalidCredentials
   \<and> DB_two_3 = [U_two\<lparr>failed_login_attempts := 5, account_locked_until := Some 900300\<rparr>]
   \<and> fst (login E0 (W 400) DB_two_3 ''a@x.com'' ''wrong'') = AccountLocked
   \<and> fst (login E0 (W 400) DB_two_3 ''a@x.com'' ''wrong'') \<noteq> InvalidCredentials"
  by (simp add: DB_two_1_eq DB_two_2_eq DB_two_3_eq login_def select_by_email_def U_two_def
      U0_def W_def E0_def is_locked_def INTEGER_MAX_def Let_def update_users_def
      InvalidCredentials_def AccountLocked_def json_def)

text \<open>
  What \<^verbatim>\<open>refreshToken\<close> does guarantee. Whenever it succeeds for a presented token
  \<open>tok1\<close>, that token passed \<^verbatim>\<open>verifyRefreshToken\<close>, the row of its subject stored
  exactly \<open>tok1\<close>, and the clock had not passed the stored expiry. If the refresh token
  \<open>tok2\<close> of the new pair differs from \<open>tok1\<close>, every later call with \<open>tok1\<close> on the
  resulting store answers 401 and changes nothing.
\<close>

lemma refreshToken_replay_rejected_when_token_differs:
  assumes "refreshToken e w db tok1 = (r, db')" and "success r"
  shows "\<exists>decoded user rest tok2.
           verifyRefreshToken e (now w) tok1 = Inr decoded
         \<and> select_by_id db (userId decoded) = user # rest
         \<and> refresh_token user = Some tok1
         \<and> \<not> now w > new_Date (refresh_token_expires user)
         \<and> data r = Some (RefreshData (generateTokenPair e (now w) (id_col user) (email user)))
         \<and> tok2 = refreshToken_pair (generateTokenPair e (now w) (id_col user) (email user))
         \<and> (tok2 \<noteq> tok1 \<longrightarrow>
              (\<forall>w2. InvalidToken (fst (refreshToken e w2 db' tok1))
                    \<and> snd (refreshToken e w2 db' tok1) = db'))"
proof -
  from refreshToken_success_state [OF assms] obtain decoded user rest where
    v: "verifyRefreshToken e (now w) tok1 = Inr decoded" and
    sel: "select_by_id db (userId decoded) = user # rest" and
    st: "refresh_token user = Some tok1" and
    ex: "\<not> now w > new_Date (refresh_token_expires user)" and
    d: "data r = Some (RefreshData (generateTokenPair e (now w) (id_col user) (email user)))" and
    db': "db' = update_users db (id_col user)
                  (\<lambda>u. u\<lparr>refresh_token :=
                              Some (refreshToken_pair
                                      (generateTokenPair e (now w) (id_col user) (email user))),
                          refresh_token_expires := Some (now w + 7 * 24 * 60 * 60 * 1000)\<rparr>)"
    by blast
  let ?tok2 = "refreshToken_pair (generateTokenPair e (now w) (id_col user) (email user))"
  have idu: "id_col user = userId decoded"
    using sel by (rule select_by_id_ConsD)
  have again: "InvalidToken (fst (refreshToken e w2 db' tok1))
             \<and> snd (refreshToken e w2 db' tok1) = db'" if ne: "?tok2 \<noteq> tok1" for w2
  proof (rule refreshToken_not_stored)
    fix d2 user2 rest2
    assume v2: "verifyRefreshToken e (now w2) tok1 = Inr d2"
      and sel2: "select_by_id db' (userId d2) = user2 # rest2"
    have "d2 = decoded" using verifyRefreshToken_claims [OF v v2] .
    with sel2 have "user2 = user\<lparr>refresh_token := Some ?tok2,
                      refresh_token_expires := Some (now w + 7 * 24 * 60 * 60 * 1000)\<rparr>"
      by (simp add: db' select_by_id_update_users sel idu)
    with ne show "refresh_token user2 \<noteq> Some tok1" by simp
  qed
  from v sel st ex d again show ?thesis by blast
qed

text \<open>
  Claim C2 (refresh tokens are single-use) against the code. The handler mints the new
  pair with \<^verbatim>\<open>generateTokenPair\<close> under the comment
  \<^verbatim>\<open>Generate new token pair (refresh token rotation)\<close>, but a refresh token is
  determined by user id, secret and the second of issue. A login at clock value 5000
  returns the refresh token \<open>T1\<close>; a refresh with \<open>T1\<close> at clock value 5500, in the same
  second, succeeds and returns \<open>T1\<close> again as the new refresh token; a second refresh
  with \<open>T1\<close> at clock value 5900 then succeeds with status 200, where the claim has it
  answer 401.
\<close>

theorem refresh_in_same_second_returns_same_token:
  "fst (login E0 (W 5000) [U0] ''a@x.com'' ''Secur3!Pass'') =
      \<lparr>status = 200, success = True, message = Some ''Login successful'',
       data = Some (LoginData 1 ''a@x.com''
                \<lparr>accessToken = generateAccessToken E0 5000 1 ''a@x.com'',
                 refreshToken_pair = T1, expiresIn = 900\<rparr>)\<rparr>
   \<and> fst (refreshToken E0 (W 5500) DB_login T1) =
      \<lparr>status = 200, success = True, message = None,
       data = Some (RefreshData
                \<lparr>accessToken = generateAccessToken E0 5500 1 ''a@x.com'',
                 refreshToken_pair = T1, expiresIn = 900\<rparr>)\<rparr>
   \<and> fst (refreshToken E0 (W 5900) DB_refreshed T1) =
      \<lparr>status = 200, success = True, message = None,
       data = Some (RefreshData
                \<lparr>accessToken = generateAccessToken E0 5900 1 ''a@x.com'',
                 refreshToken_pair = T1, expiresIn = 900\<rparr>)\<rparr>"
  by (simp add: DB_refreshed_eq DB_login_eq login_def refreshToken_def verifyRefreshToken_def
      T1_eq E0_def W_def select_by_id_def select_by_email_def U0_def new_Date_def Let_def
      is_locked_def generateTokenPair_def generateRefreshToken_def generateAccessToken_def
      jwt_sign_def payload.extend_def)

theorem refresh_in_same_second_returns_same_token_witness:
  "status (fst (refreshToken E0 (W 5900) DB_refreshed T1)) = 200
   \<and> success (fst (refreshToken E0 (W 5900) DB_refreshed T1))
   \<and> data (fst (refreshToken E0 (W 5900) DB_refreshed T1)) =
       Some (RefreshData
               \<lparr>accessToken = generateAccessToken E0 5900 1 ''a@x.com'',
                refreshToken_pair = T1, expiresIn = 900\<rparr>)"
  using refresh_in_same_second_returns_same_token by simp

text \<open>
  Claim C3 (a successful login resets the lockout state). Whenever login succeeds, for
  any store, and so for any earlier counter value and any elapsed lock timestamp, the row
  the store then returns for that email has \<open>failed_login_attempts = 0\<close> and
  \<open>account_locked_until = NULL\<close>, and so has every row with that row's id.
\<close>

theorem successful_login_resets_lockout:
  assumes "login e w db em pw = (r, db')" and "success r"
  shows "(\<exists>user' rest'. select_by_email db' em = user' # rest'
            \<and> failed_login_attempts user' = 0 \<and> account_locked_until user' = None
            \<and> (\<forall>u \<in> set db'. id_col u = id_col user' \<longrightarrow>
                  failed_login_attempts u = 0 \<and> account_locked_until u = None))"
proof -
  from login_success_state [OF assms] obtain user rest where
    sel: "select_by_email db em = user # rest" and
    db': "db' = update_users
                (update_users db (id_col user)
                   (\<lambda>u. u\<lparr>failed_login_attempts := 0, account_locked_until := None,
                          last_login := Some (now w)\<rparr>))
                (id_col user)
                (\<lambda>u. u\<lparr>refresh_token :=
                            Some (refreshToken_pair
                                    (generateTokenPair e (now w) (id_col user) (email user))),
                        refresh_token_expires := Some (now w + 7 * 24 * 60 * 60 * 1000)\<rparr>)"
    by blast
  let ?user' = "user\<lparr>failed_login_attempts := 0, account_locked_until := None,
                     last_login := Some (now w),
                     refresh_token :=
                       Some (refreshToken_pair
                               (generateTokenPair e (now w) (id_col user) (email user))),
                     refresh_token_expires := Some (now w + 7 * 24 * 60 * 60 * 1000)\<rparr>"
  have "\<exists>rest'. select_by_email db' em = ?user' # rest'"
    by (simp add: db' select_by_email_update_users sel)
  moreover have "\<forall>u \<in> set db'. id_col u = id_col user \<longrightarrow>
                   failed_login_attempts u = 0 \<and> account_locked_until u = None"
    by (auto simp: db' update_users_def)
  ultimately show ?thesis by auto
qed

theorem successful_login_resets_lockout_witness:
  "success (fst (login E0 (W 1000000) [U_locked] ''a@x.com'' ''Secur3!Pass''))
   \<and> (\<exists>user' rest'.
         select_by_email (snd (login E0 (W 1000000) [U_locked] ''a@x.com'' ''Secur3!Pass''))
           ''a@x.com'' = user' # rest'
         \<and> failed_login_attempts user' = 0 \<and> account_locked_until user' = None)"
proof -
  have s: "success (fst (login E0 (W 1000000) [U_locked] ''a@x.com'' ''Secur3!Pass''))"
    by (simp add: login_def select_by_email_def U_locked_def U0_def W_def E0_def is_locked_def
        Let_def)
  from successful_login_resets_lockout [OF surjective_pairing s] s
  show ?thesis by blast
qed

text \<open>
  Claim C4 (logout revokes the refresh token). A logout whose query is not rejected answers
  200 and sets \<open>refresh_token\<close> and \<open>refresh_token_expires\<close> to \<^verbatim>\<open>NULL\<close> in the rows of
  that user id. On the resulting store every \<^verbatim>\<open>refreshToken\<close> call with a refresh token
  issued for that user id (at any time, so with any remaining lifetime), and more
  generally with any token whose verified subject is that user id, answers 401 and
  changes nothing. A second logout answers the same 200 and leaves the store as it is.
\<close>

theorem logout_revokes_refresh_token:
  assumes "query_fails w = None"
  shows "let (r, db') = logout w db req_user
         in r = json 200 True ''Logout successful''
          \<and> db' = update_users db (userId req_user)
                    (\<lambda>u. u\<lparr>refresh_token := None, refresh_token_expires := None\<rparr>)
          \<and> (\<forall>u \<in> set db'. id_col u = userId req_user \<longrightarrow>
                refresh_token u = None \<and> refresh_token_expires u = None)
          \<and> (\<forall>e t w2. InvalidToken
                         (fst (refreshToken e w2 db' (generateRefreshToken e t (userId req_user))))
                     \<and> snd (refreshToken e w2 db' (generateRefreshToken e t (userId req_user)))
                         = db')
          \<and> (\<forall>e w2 tok d. verifyRefreshToken e (now w2) tok = Inr d
                           \<and> userId d = userId req_user \<longrightarrow>
                  InvalidToken (fst (refreshToken e w2 db' tok))
                \<and> snd (refreshToken e w2 db' tok) = db')
          \<and> (\<forall>w3. query_fails w3 = None \<longrightarrow> logout w3 db' req_user = (r, db'))"
proof -
  let ?clear = "\<lambda>u::users_row. u\<lparr>refresh_token := None, refresh_token_expires := None\<rparr>"
  let ?db' = "update_users db (userId req_user) ?clear"
  have lo: "logout w db req_user = (json 200 True ''Logout successful'', ?db')"
    using assms by (simp add: logout_ok)
  have cleared: "\<forall>u \<in> set ?db'. id_col u = userId req_user \<longrightarrow>
                   refresh_token u = None \<and> refresh_token_expires u = None"
    by (auto simp: update_users_def)
  have rej: "InvalidToken (fst (refreshToken e w2 ?db' tok))
           \<and> snd (refreshToken e w2 ?db' tok) = ?db'"
    if "verifyRefreshToken e (now w2) tok = Inr d" and "userId d = userId req_user"
    for e w2 tok d
  proof (rule refreshToken_not_stored)
    fix d2 user2 rest2
    assume v2: "verifyRefreshToken e (now w2) tok = Inr d2"
      and sel2: "select_by_id ?db' (userId d2) = user2 # rest2"
    from that(1) v2 have "d2 = d" by simp
    with sel2 that(2) have "id_col user2 = userId req_user"
      by (simp add: select_by_id_ConsD)
    moreover from sel2 have "user2 \<in> set ?db'"
      unfolding select_by_id_def by (auto dest: filter_eq_ConsD)
    ultimately show "refresh_token user2 \<noteq> Some tok"
      using cleared by simp
  qed
  have issued: "InvalidToken
                  (fst (refreshToken e w2 ?db' (generateRefreshToken e t (userId req_user))))
              \<and> snd (refreshToken e w2 ?db' (generateRefreshToken e t (userId req_user))) = ?db'"
    for e t w2
  proof (rule refreshToken_not_stored)
    fix d2 user2 rest2
    assume v2: "verifyRefreshToken e (now w2) (generateRefreshToken e t (userId req_user))
                  = Inr d2"
      and sel2: "select_by_id ?db' (userId d2) = user2 # rest2"
    from v2 have "userId d2 = userId req_user"
      by (auto simp: verifyRefreshToken_def generateRefreshToken_def jwt_sign_def
          payload.extend_def split: if_splits)
    with sel2 have "id_col user2 = userId req_user"
      by (simp add: select_by_id_ConsD)
    moreover from sel2 have "user2 \<in> set ?db'"
      unfolding select_by_id_def by (auto dest: filter_eq_ConsD)
    ultimately show
      "refresh_token user2 \<noteq> Some (generateRefreshToken e t (userId req_user))"
      using cleared by simp
  qed
  have twice: "logout w3 ?db' req_user = (json 200 True ''Logout successful'', ?db')"
    if "query_fails w3 = None" for w3
    using that by (simp add: logout_ok update_users_idem)
  show ?thesis
    unfolding lo Let_def split_conv
    using cleared rej issued twice by blast
qed

theorem logout_revokes_refresh_token_witness:
  "query_fails (W 20000) = None
   \<and> refresh_token U_session = Some T1
   \<and> verifyRefreshToken E0 30000 T1 =
       Inr \<lparr>userId = 1, email_claim = None, type_claim = ''refresh'',
            iat = 5, exp_claim = 604805, iss = ''secure-auth-api''\<rparr>
   \<and> (let (r, db') = logout (W 20000) [U_session] R0
      in status r = 200 \<and> db' = [U0]
       \<and> InvalidToken (fst (refreshToken E0 (W 30000) db' T1))
       \<and> logout (W 40000) db' R0 = (r, db'))"
  using logout_revokes_refresh_token [of "W 20000" "[U_session]" R0]
  by (simp add: W_def split_beta R0_def T1_def U_session_def U0_def update_users_def json_def
      logout_def Let_def verifyRefreshToken_def generateRefreshToken_def jwt_sign_def
      payload.extend_def E0_def)

text \<open>
  Claim C6 (unknown email against wrong password), as amended. A login with an email
  the store does not know and a login with a known email and a wrong password answer
  with the same response, \<open>InvalidCredentials\<close>, provided the known account is not inside
  a lock window, its counter is below the column's maximum and no query is rejected.
\<close>

theorem unknown_email_same_as_wrong_password:
  assumes "select_by_email db em = user # rest"
    and "\<not> is_locked (now w) (account_locked_until user)"
    and "\<not> bcrypt_compare e pw (password_hash user)"
    and "failed_login_attempts user < INTEGER_MAX"
    and "query_fails w = None"
    and "select_by_email db em' = []" and "query_fails w' = None"
  shows "fst (login e w db em pw) = InvalidCredentials
       \<and> fst (login e w' db em' pw') = InvalidCredentials"
  using login_wrong_password [OF assms(1) assms(5) assms(2) assms(3) assms(4)]
    login_unknown_email [OF assms(6), of w' e pw'] assms(7)
  by simp

theorem unknown_email_same_as_wrong_password_witness:
  "select_by_email [U0] ''a@x.com'' = [U0] \<and> select_by_email [U0] ''nobody@x.com'' = []
   \<and> \<not> bcrypt_compare E0 ''wrong'' (password_hash U0)
   \<and> fst (login E0 (W 100) [U0] ''a@x.com'' ''wrong'') = InvalidCredentials
   \<and> fst (login E0 (W 100) [U0] ''nobody@x.com'' ''wrong'') = InvalidCredentials"
  using unknown_email_same_as_wrong_password [of "[U0]" "''a@x.com''" U0 "[]" "W 100" E0
      "''wrong''" "''nobody@x.com''" "W 100" "''wrong''"]
  by (simp add: select_by_email_def U0_def W_def E0_def INTEGER_MAX_def is_locked_def)

text \<open>
  Claim C6 as stated fails for a locked account: at the same clock value and with the
  same wrong password, the known email answers \<open>AccountLocked\<close> (403) and the unknown
  email \<open>InvalidCredentials\<close> (401), so the two responses tell the caller that the account
  exists.
\<close>

theorem locked_account_reveals_existence:
  "\<not> bcrypt_compare E0 ''wrong'' (password_hash U_locked)
   \<and> fst (login E0 (W 600) [U_locked] ''a@x.com'' ''wrong'') = AccountLocked
   \<and> fst (login E0 (W 600) [U_locked] ''nobody@x.com'' ''wrong'') = InvalidCredentials
   \<and> AccountLocked \<noteq> InvalidCredentials"
  by (simp add: login_def select_by_email_def U_locked_def U0_def W_def E0_def is_locked_def
      AccountLocked_def InvalidCredentials_def json_def)

text \<open>
  Claim C7 (a locked account is rejected before the password is looked at). When the
  row the store returns for the email has \<open>account_locked_until\<close> strictly after the
  clock, and the \<^verbatim>\<open>SELECT\<close> is not rejected, login answers \<open>AccountLocked\<close> and returns
  the store unchanged; the outcome is the same for every password and for every
  \<^verbatim>\<open>bcrypt.compare\<close>, which is therefore not consulted.
\<close>

theorem locked_login_is_rejected_unchanged:
  assumes "select_by_email db em = user # rest"
    and "account_locked_until user = Some until" and "now w < until"
    and "query_fails w \<noteq> Some 0"
  shows "login e w db em pw = (AccountLocked, db)
       \<and> (\<forall>e' pw'. login e' w db em pw' = login e w db em pw)"
  using assms by (simp add: login_while_locked is_locked_def)

theorem locked_login_is_rejected_unchanged_witness:
  "select_by_email [U_locked] ''a@x.com'' = [U_locked]
   \<and> account_locked_until U_locked = Some 900500 \<and> now (W 600) < 900500
   \<and> bcrypt_compare E0 ''Secur3!Pass'' (password_hash U_locked)
   \<and> login E0 (W 600) [U_locked] ''a@x.com'' ''Secur3!Pass'' = (AccountLocked, [U_locked])"
  using locked_login_is_rejected_unchanged [of "[U_locked]" "''a@x.com''" U_locked "[]" 900500
      "W 600" E0 "''Secur3!Pass''"]
  by (simp add: select_by_email_def U_locked_def U0_def W_def E0_def)




text \<open>
  Claim C10 (an elapsed lock does not reset the counter). Take a row with a lock
  timestamp that the clock has reached and a counter of 5 or more, below the column's
  maximum. The elapsed lock lets the call through to the password check, and one login
  with a wrong password answers \<open>InvalidCredentials\<close>, stores the counter plus one and
  a new lock until the clock value plus 15 minutes; every login before that instant
  answers \<open>AccountLocked\<close>. Neither \<^verbatim>\<open>refreshToken\<close> nor \<^verbatim>\<open>logout\<close> ever changes a
  counter.
\<close>

theorem expired_lock_relocks_on_next_failure:
  assumes "select_by_email db em = user # rest"
    and "account_locked_until user = Some until" and "until \<le> now w"
    and "5 \<le> failed_login_attempts user" and "failed_login_attempts user < INTEGER_MAX"
    and "\<not> bcrypt_compare e pw (password_hash user)"
    and "query_fails w = None"
  shows "(let (r, db') = login e w db em pw
          in r = InvalidCredentials
           \<and> (\<exists>rest'. select_by_email db' em =
                 user\<lparr>failed_login_attempts := failed_login_attempts user + 1,
                      account_locked_until := Some (now w + 15 * 60 * 1000)\<rparr> # rest')
           \<and> (\<forall>w' pw'. query_fails w' = None \<and> now w' < now w + 15 * 60 * 1000 \<longrightarrow>
                 login e w' db' em pw' = (AccountLocked, db')))
       \<and> (\<forall>w' tok. map failed_login_attempts (snd (refreshToken e w' db tok)) =
                     map failed_login_attempts db)
       \<and> (\<forall>w' req_user. map failed_login_attempts (snd (logout w' db req_user)) =
                          map failed_login_attempts db)"
proof -
  have open_now: "\<not> is_locked (now w) (account_locked_until user)"
    using assms(2,3) by (simp add: is_locked_def)
  from login_wrong_password_row [OF assms(1) assms(7) open_now assms(6) assms(5)] assms(4)
  obtain rest' where r: "fst (login e w db em pw) = InvalidCredentials"
    and q: "select_by_email (snd (login e w db em pw)) em =
              user\<lparr>failed_login_attempts := failed_login_attempts user + 1,
                   account_locked_until := Some (now w + 15 * 60 * 1000)\<rparr> # rest'"
    by auto
  have l: "login e w' (snd (login e w db em pw)) em pw' =
             (AccountLocked, snd (login e w db em pw))"
    if "query_fails w' = None" and "now w' < now w + 15 * 60 * 1000" for w' pw'
    using login_while_locked [OF q, of w' e pw'] that by (simp add: is_locked_def)
  from r q l show ?thesis
    by (simp add: split_beta refreshToken_keeps_counters logout_keeps_counters)
qed

theorem expired_lock_relocks_on_next_failure_witness:
  "select_by_email [U_locked] ''a@x.com'' = [U_locked]
   \<and> (900500::int) \<le> now (W 900500)
   \<and> \<not> bcrypt_compare E0 ''wrong'' (password_hash U_locked)
   \<and> (let (r, db') = login E0 (W 900500) [U_locked] ''a@x.com'' ''wrong''
      in r = InvalidCredentials
       \<and> select_by_email db' ''a@x.com'' =
           [U_locked\<lparr>failed_login_attempts := 6, account_locked_until := Some 1800500\<rparr>]
       \<and> login E0 (W 900600) db' ''a@x.com'' ''Secur3!Pass'' = (AccountLocked, db'))"
  using expired_lock_relocks_on_next_failure [of "[U_locked]" "''a@x.com''" U_locked "[]" 900500
      "W 900500" E0 "''wrong''"]
  by (simp add: select_by_email_def U_locked_def U0_def W_def E0_def INTEGER_MAX_def
      split_beta update_users_def login_def is_locked_def Let_def InvalidCredentials_def
      AccountLocked_def)

end
